theory Spec2Isabelle
  imports Main
begin

section \<open>The Go string library, as far as pkg/awk uses it\<close>

text \<open>
  A Go string is a sequence of bytes; \<^typ>\<open>string\<close> is a list of \<^typ>\<open>char\<close>, and a
  \<^typ>\<open>char\<close> is a byte. The functions below follow the Go standard library
  (packages \<^verbatim>\<open>strings\<close> and \<^verbatim>\<open>strconv\<close>) on bytes.
\<close>

definition HasPrefix :: "string \<Rightarrow> string \<Rightarrow> bool" where
  "HasPrefix s p = (length p \<le> length s \<and> take (length p) s = p)"

definition HasSuffix :: "string \<Rightarrow> string \<Rightarrow> bool" where
  "HasSuffix s p = (length p \<le> length s \<and> drop (length s - length p) s = p)"

text \<open>\<^verbatim>\<open>strings.Index\<close>: the position of the first occurrence, \<open>None\<close> for Go's \<open>-1\<close>.\<close>

fun Index :: "string \<Rightarrow> string \<Rightarrow> nat option" where
  "Index [] sub = (if sub = [] then Some 0 else None)"
| "Index (c # cs) sub =
     (if HasPrefix (c # cs) sub then Some 0 else map_option Suc (Index cs sub))"

definition Contains :: "string \<Rightarrow> string \<Rightarrow> bool" where
  "Contains s sub = (Index s sub \<noteq> None)"

definition TrimPrefix :: "string \<Rightarrow> string \<Rightarrow> string" where
  "TrimPrefix s p = (if HasPrefix s p then drop (length p) s else s)"

text \<open>
  White space is what \<^verbatim>\<open>unicode.IsSpace\<close> accepts. The table lists the UTF-8 encoding of
  each such code point: U+0009 to U+000D, U+0020, U+0085, U+00A0, U+1680, U+2000 to U+200A,
  U+2028, U+2029, U+202F, U+205F and U+3000. No entry is a prefix of another one, and the
  first byte of a multi-byte entry is never a continuation byte, so a white-space rune
  starts at a position exactly when one of the entries starts there.
\<close>

definition spaceEncodings :: "string list" where
  "spaceEncodings =
    [[CHR 0x09], [CHR 0x0A], [CHR 0x0B], [CHR 0x0C], [CHR 0x0D], [CHR 0x20],
     [CHR 0xC2, CHR 0x85], [CHR 0xC2, CHR 0xA0],
     [CHR 0xE1, CHR 0x9A, CHR 0x80],
     [CHR 0xE2, CHR 0x80, CHR 0x80], [CHR 0xE2, CHR 0x80, CHR 0x81],
     [CHR 0xE2, CHR 0x80, CHR 0x82], [CHR 0xE2, CHR 0x80, CHR 0x83],
     [CHR 0xE2, CHR 0x80, CHR 0x84], [CHR 0xE2, CHR 0x80, CHR 0x85],
     [CHR 0xE2, CHR 0x80, CHR 0x86], [CHR 0xE2, CHR 0x80, CHR 0x87],
     [CHR 0xE2, CHR 0x80, CHR 0x88], [CHR 0xE2, CHR 0x80, CHR 0x89],
     [CHR 0xE2, CHR 0x80, CHR 0x8A],
     [CHR 0xE2, CHR 0x80, CHR 0xA8], [CHR 0xE2, CHR 0x80, CHR 0xA9],
     [CHR 0xE2, CHR 0x80, CHR 0xAF],
     [CHR 0xE2, CHR 0x81, CHR 0x9F],
     [CHR 0xE3, CHR 0x80, CHR 0x80]]"

text \<open>The width in bytes of the white-space rune at the head of the string, 0 if there is none.\<close>

definition spaceWidth :: "string \<Rightarrow> nat" where
  "spaceWidth s = (case find (HasPrefix s) spaceEncodings of None \<Rightarrow> 0 | Some e \<Rightarrow> length e)"

text \<open>The same at the end of the string, as \<^verbatim>\<open>utf8.DecodeLastRuneInString\<close> sees it.\<close>

definition spaceWidthEnd :: "string \<Rightarrow> nat" where
  "spaceWidthEnd s = (case find (HasSuffix s) spaceEncodings of None \<Rightarrow> 0 | Some e \<Rightarrow> length e)"

function trimLeft :: "string \<Rightarrow> string" where
  "trimLeft s = (if spaceWidth s = 0 then s else trimLeft (drop (spaceWidth s) s))"
  by pat_completeness auto

function trimRight :: "string \<Rightarrow> string" where
  "trimRight s =
     (if spaceWidthEnd s = 0 then s else trimRight (take (length s - spaceWidthEnd s) s))"
  by pat_completeness auto

lemma spaceWidth_pos_nonempty: "0 < spaceWidth s \<Longrightarrow> 0 < length s"
  by (auto simp: spaceWidth_def spaceEncodings_def HasPrefix_def split: option.splits if_splits)

lemma spaceWidthEnd_pos_nonempty: "0 < spaceWidthEnd s \<Longrightarrow> 0 < length s"
  by (auto simp: spaceWidthEnd_def spaceEncodings_def HasSuffix_def split: option.splits if_splits)

termination trimLeft
  by (relation "measure length") (auto dest: spaceWidth_pos_nonempty intro: diff_less)

termination trimRight
  by (relation "measure length") (auto dest: spaceWidthEnd_pos_nonempty intro: diff_less)

definition TrimSpace :: "string \<Rightarrow> string" where
  "TrimSpace s = trimRight (trimLeft s)"

text \<open>
  \<^verbatim>\<open>strings.Fields\<close>: the maximal runs of bytes between white-space runes. \<open>cur\<close> is the
  field being read. Scanning byte by byte agrees with Go's scan rune by rune, since no
  white-space rune starts inside another rune.
\<close>

function fieldsFrom :: "string \<Rightarrow> string \<Rightarrow> string list" where
  "fieldsFrom cur [] = (if cur = [] then [] else [cur])"
| "fieldsFrom cur (c # cs) =
     (if spaceWidth (c # cs) = 0 then fieldsFrom (cur @ [c]) cs
      else (if cur = [] then [] else [cur]) @ fieldsFrom [] (drop (spaceWidth (c # cs) - 1) cs))"
  by pat_completeness auto
termination
  by (relation "measure (\<lambda>(cur, s). length s)") auto

definition strings_Fields :: "string \<Rightarrow> string list" where
  "strings_Fields s = fieldsFrom [] s"

text \<open>
  \<^verbatim>\<open>utf8.DecodeRuneInString\<close>, the width only: the number of bytes of the rune at the
  head of a non-empty string; an invalid or truncated encoding has width 1.
\<close>

definition isCont :: "char \<Rightarrow> nat \<Rightarrow> nat \<Rightarrow> bool" where
  "isCont c lo hi = (lo \<le> (of_char c :: nat) \<and> (of_char c :: nat) \<le> hi)"

fun runeWidth :: "string \<Rightarrow> nat" where
  "runeWidth [] = 0"
| "runeWidth (c # cs) =
     (let x = (of_char c :: nat) in
      if x < 0x80 then 1
      else if 0xC2 \<le> x \<and> x \<le> 0xDF then
        (case cs of d # _ \<Rightarrow> if isCont d 0x80 0xBF then 2 else 1 | _ \<Rightarrow> 1)
      else if 0xE0 \<le> x \<and> x \<le> 0xEF then
        (case cs of d # e # _ \<Rightarrow>
           if isCont d (if x = 0xE0 then 0xA0 else 0x80) (if x = 0xED then 0x9F else 0xBF)
              \<and> isCont e 0x80 0xBF then 3 else 1
         | _ \<Rightarrow> 1)
      else if 0xF0 \<le> x \<and> x \<le> 0xF4 then
        (case cs of d # e # f # _ \<Rightarrow>
           if isCont d (if x = 0xF0 then 0x90 else 0x80) (if x = 0xF4 then 0x8F else 0xBF)
              \<and> isCont e 0x80 0xBF \<and> isCont f 0x80 0xBF then 4 else 1
         | _ \<Rightarrow> 1)
      else 1)"


text \<open>
  \<^verbatim>\<open>strings.explode(s, -1)\<close>: one string per rune, invalid bytes one by one (older
  releases of the library replace an invalid byte by U+FFFD; on valid UTF-8 they agree).
\<close>

function explode :: "string \<Rightarrow> string list" where
  "explode [] = []"
| "explode (c # cs) =
     take (runeWidth (c # cs)) (c # cs) # explode (drop (runeWidth (c # cs) - 1) cs)"
  by pat_completeness auto
termination
  by (relation "measure length") auto

lemma Index_Some_bound: "Index s sub = Some m \<Longrightarrow> m + length sub \<le> length s"
  by (induction s arbitrary: m) (auto simp: HasPrefix_def split: if_splits)

text \<open>
  \<^verbatim>\<open>strings.Split(s, sep)\<close>, that is \<^verbatim>\<open>genSplit(s, sep, 0, -1)\<close>: an empty separator
  explodes the string; otherwise the string is cut at each occurrence of the separator,
  found from left to right.
\<close>

function Split :: "string \<Rightarrow> string \<Rightarrow> string list" where
  "Split s sep =
     (if sep = [] then explode s
      else case Index s sep of
        None \<Rightarrow> [s]
      | Some m \<Rightarrow> take m s # Split (drop (m + length sep) s) sep)"
  by pat_completeness auto
termination
proof (relation "measure (\<lambda>(s, sep). length s)")
  show "wf (measure (\<lambda>(s, sep). length s))" by simp
next
  fix s sep :: string and m :: nat
  assume "sep \<noteq> []" and "Index s sep = Some m"
  then have "m + length sep \<le> length s" and "0 < length sep"
    by (simp_all add: Index_Some_bound)
  then have "length s - (m + length sep) < length s"
    by arith
  then show "((drop (m + length sep) s, sep), (s, sep)) \<in> measure (\<lambda>(s, sep). length s)"
    by simp
qed

text \<open>
  \<^verbatim>\<open>strings.SplitN(s, sep, 2)\<close> for a non-empty separator (the source calls it with
  \<^verbatim>\<open>" "\<close> and \<^verbatim>\<open>"+="\<close> only): at most one cut, at the first occurrence.
\<close>

definition SplitN2 :: "string \<Rightarrow> string \<Rightarrow> string list" where
  "SplitN2 s sep =
     (case Index s sep of
        None \<Rightarrow> [s]
      | Some m \<Rightarrow> [take m s, drop (m + length sep) s])"

fun Join :: "string list \<Rightarrow> string \<Rightarrow> string" where
  "Join [] sep = []"
| "Join [x] sep = x"
| "Join (x # y # ys) sep = x @ sep @ Join (y # ys) sep"

text \<open>
  \<^verbatim>\<open>strconv.Atoi\<close> on a 64-bit platform: an optional sign and at least one decimal
  digit, nothing else; the value must fit a 64-bit signed integer. \<open>None\<close> is Go's error
  (syntax or range).
\<close>

definition isDigit :: "char \<Rightarrow> bool" where
  "isDigit c = (48 \<le> (of_char c :: nat) \<and> (of_char c :: nat) \<le> 57)"

definition digitsValue :: "string \<Rightarrow> int" where
  "digitsValue ds = foldl (\<lambda>n c. n * 10 + (int (of_char c) - 48)) 0 ds"

definition Atoi :: "string \<Rightarrow> int option" where
  "Atoi s =
     (let neg = HasPrefix s ''-'';
          ds = (if HasPrefix s ''-'' \<or> HasPrefix s ''+'' then drop 1 s else s) in
      if ds = [] \<or> \<not> list_all isDigit ds then None
      else let n = (if neg then - digitsValue ds else digitsValue ds) in
        if - (2 ^ 63) \<le> n \<and> n < 2 ^ 63 then Some n else None)"

section \<open>Library parameters: float64 and regexp\<close>

text \<open>
  The interpreter computes on Go's \<^verbatim>\<open>float64\<close> and matches with Go's \<^verbatim>\<open>regexp\<close>. Both
  belong to the standard library, not to this repository, and are taken as parameters:
  \<open>'n\<close> is the type of float64 values and \<open>'r\<close> the type of compiled expressions.
  \<^verbatim>\<open>strconv.ParseFloat(s, 64)\<close> returns the parsed value, or \<^verbatim>\<open>\<plusminus>Inf\<close> with a range
  error for a well-formed text that is too large, or 0 with a syntax error.
\<close>

datatype 'n parsed = Parsed 'n | ErrRange 'n | ErrSyntax

record ('n, 'r) golib =
  regexp_Compile :: "string \<Rightarrow> 'r option"
  regexp_MatchString :: "'r \<Rightarrow> string \<Rightarrow> bool"
  strconv_ParseFloat :: "string \<Rightarrow> 'n parsed"
  fmt_v :: "'n \<Rightarrow> string"
  f_zero :: "'n"
  f_eq :: "'n \<Rightarrow> 'n \<Rightarrow> bool"
  f_add :: "'n \<Rightarrow> 'n \<Rightarrow> 'n"
  f_sub :: "'n \<Rightarrow> 'n \<Rightarrow> 'n"
  f_mul :: "'n \<Rightarrow> 'n \<Rightarrow> 'n"
  f_div :: "'n \<Rightarrow> 'n \<Rightarrow> 'n"

text \<open>\<^verbatim>\<open>val, _ := strconv.ParseFloat(...)\<close>: the value, whatever the error.\<close>

definition parsedValue :: "('n, 'r) golib \<Rightarrow> 'n parsed \<Rightarrow> 'n" where
  "parsedValue lib p = (case p of Parsed v \<Rightarrow> v | ErrRange v \<Rightarrow> v | ErrSyntax \<Rightarrow> f_zero lib)"

section \<open>The data model of pkg/awk\<close>

datatype error =
    MissingBeginBrace
  | ActionNotBraced
  | MissingClosingSlash
  | InvalidRegex
  | InvalidLineNumber string
  | InvalidField string
  | UnsupportedStatement string
  | CannotOpen string
  | ReadError
  | TooFewArgs

record Options =
  FieldSeparator :: string
  Program :: string

text \<open>
  \<open>NR\<close> and \<open>NF\<close> are Go \<^verbatim>\<open>int\<close>s (64 bits). They only count lines and fields, and a
  run would have to read \<open>2 ^ 63\<close> lines to overflow \<open>NR\<close>, so they are unbounded here.
\<close>

record Context =
  NR :: int
  NF :: int
  Fields :: "string list"
  Line :: string
  FS :: string

datatype 'r Pattern = AlwaysPattern | RegexPattern 'r | LinePattern int

datatype Expression =
    FieldExpression int
  | VariableExpression string
  | BinaryExpression Expression string Expression

record FieldRef =
  Field' :: int
  Var :: string

datatype Statement = PrintStatement "FieldRef list" | AssignStatement string Expression

text \<open>
  Every \<open>Action\<close> owns its \<open>Variables\<close>: \<open>None\<close> is Go's nil map, which
  \<open>Action_Execute\<close> replaces by an empty map on first use.
\<close>

record 'n Action =
  Statements :: "Statement list"
  Variables :: "(string \<rightharpoonup> 'n) option"

text \<open>\<open>Pattern\<close> is an interface value in Go; \<open>None\<close> is the nil interface.\<close>

record ('n, 'r) Rule =
  Pattern :: "'r Pattern option"
  Action :: "'n Action"

record ('n, 'r) Program =
  Begin :: "'n Action option"
  Rules :: "('n, 'r) Rule list"
  End :: "'n Action option"

text \<open>The input: the lines the \<^verbatim>\<open>bufio.Scanner\<close> yields, and the error it ends with.\<close>

record Reader =
  tokens :: "string list"
  scanErr :: "error option"

section \<open>Evaluation\<close>

text \<open>Reading a Go map: a missing key reads as the zero value.\<close>

definition mapGet :: "('n, 'r) golib \<Rightarrow> (string \<rightharpoonup> 'n) \<Rightarrow> string \<Rightarrow> 'n" where
  "mapGet lib vars name = (case vars name of None \<Rightarrow> f_zero lib | Some v \<Rightarrow> v)"

fun Match :: "('n, 'r) golib \<Rightarrow> 'r Pattern \<Rightarrow> Context \<Rightarrow> bool" where
  "Match lib AlwaysPattern ctx = True"
| "Match lib (RegexPattern re) ctx = regexp_MatchString lib re (Line ctx)"
| "Match lib (LinePattern n) ctx = (NR ctx = n)"

fun Evaluate :: "('n, 'r) golib \<Rightarrow> Expression \<Rightarrow> Context \<Rightarrow> (string \<rightharpoonup> 'n) \<Rightarrow> 'n" where
  "Evaluate lib (FieldExpression n) ctx vars =
     (if n = 0 then f_zero lib
      else if 0 < n \<and> n \<le> int (length (Fields ctx))
        then parsedValue lib (strconv_ParseFloat lib (Fields ctx ! nat (n - 1)))
      else f_zero lib)"
| "Evaluate lib (VariableExpression name) ctx vars = mapGet lib vars name"
| "Evaluate lib (BinaryExpression l op r) ctx vars =
     (let left = Evaluate lib l ctx vars; right = Evaluate lib r ctx vars in
      if op = ''+'' then f_add lib left right
      else if op = ''-'' then f_sub lib left right
      else if op = ''*'' then f_mul lib left right
      else if op = ''/'' then
        (if \<not> f_eq lib right (f_zero lib) then f_div lib left right else f_zero lib)
      else f_zero lib)"

definition GetValue :: "('n, 'r) golib \<Rightarrow> FieldRef \<Rightarrow> Context \<Rightarrow> (string \<rightharpoonup> 'n) \<Rightarrow> string" where
  "GetValue lib f ctx vars =
     (if Var f \<noteq> [] then fmt_v lib (mapGet lib vars (Var f))
      else if Field' f = 0 then Line ctx
      else if 0 < Field' f \<and> Field' f \<le> int (length (Fields ctx))
        then Fields ctx ! nat (Field' f - 1)
      else [])"

text \<open>
  Standard output is the list of the lines written by \<^verbatim>\<open>fmt.Println\<close>. A statement returns
  the variables as it leaves them, the lines it wrote, and its error (always nil in Go).
\<close>

fun Statement_Execute ::
  "('n, 'r) golib \<Rightarrow> Statement \<Rightarrow> Context \<Rightarrow> (string \<rightharpoonup> 'n)
    \<Rightarrow> (string \<rightharpoonup> 'n) \<times> string list \<times> error option" where
  "Statement_Execute lib (PrintStatement fs) ctx vars =
     (if fs = [] then (vars, [Line ctx], None)
      else (vars, [Join (map (\<lambda>f. GetValue lib f ctx vars) fs) '' ''], None))"
| "Statement_Execute lib (AssignStatement v e) ctx vars =
     (vars(v \<mapsto> Evaluate lib e ctx vars), [], None)"

fun execStatements ::
  "('n, 'r) golib \<Rightarrow> Statement list \<Rightarrow> Context \<Rightarrow> (string \<rightharpoonup> 'n)
    \<Rightarrow> (string \<rightharpoonup> 'n) \<times> string list \<times> error option" where
  "execStatements lib [] ctx vars = (vars, [], None)"
| "execStatements lib (stmt # stmts) ctx vars =
     (case Statement_Execute lib stmt ctx vars of
        (vars1, out1, Some e) \<Rightarrow> (vars1, out1, Some e)
      | (vars1, out1, None) \<Rightarrow>
          (case execStatements lib stmts ctx vars1 of
             (vars2, out2, err) \<Rightarrow> (vars2, out1 @ out2, err)))"

definition Action_Execute ::
  "('n, 'r) golib \<Rightarrow> 'n Action \<Rightarrow> Context \<Rightarrow> 'n Action \<times> string list \<times> error option" where
  "Action_Execute lib a ctx =
     (let vars = (case Variables a of None \<Rightarrow> Map.empty | Some m \<Rightarrow> m) in
      case execStatements lib (Statements a) ctx vars of
        (vars', out, err) \<Rightarrow> (a\<lparr>Variables := Some vars'\<rparr>, out, err))"

section \<open>Parsing\<close>

text \<open>
  A Go slice expression \<^verbatim>\<open>s[a:b]\<close> is \<open>take (b - a) (drop a s)\<close>. Every slice of the parser
  is within bounds where it is taken (each one follows a successful \<^verbatim>\<open>HasPrefix\<close>,
  \<^verbatim>\<open>HasSuffix\<close> or \<^verbatim>\<open>Index\<close>), so no slice panics.
\<close>

definition parseExpression :: "string \<Rightarrow> error + Expression" where
  "parseExpression exprStr0 =
     (let exprStr = TrimSpace exprStr0 in
      if HasPrefix exprStr ''$'' then
        (case Atoi (drop 1 exprStr) of
           None \<Rightarrow> Inl (InvalidField exprStr)
         | Some fieldNum \<Rightarrow> Inr (FieldExpression fieldNum))
      else Inr (VariableExpression exprStr))"

text \<open>The loop of \<open>parsePrint\<close> over the comma-separated field list.\<close>

fun parseFieldList :: "string list \<Rightarrow> error + FieldRef list" where
  "parseFieldList [] = Inr []"
| "parseFieldList (field0 # others) =
     (let field = TrimSpace field0 in
      if HasPrefix field ''$'' then
        (case Atoi (drop 1 field) of
           None \<Rightarrow> Inl (InvalidField field)
         | Some fieldNum \<Rightarrow>
             (case parseFieldList others of
                Inl e \<Rightarrow> Inl e
              | Inr refs \<Rightarrow> Inr (\<lparr>Field' = fieldNum, Var = []\<rparr> # refs)))
      else
        (case parseFieldList others of
           Inl e \<Rightarrow> Inl e
         | Inr refs \<Rightarrow> Inr (\<lparr>Field' = 0, Var = field\<rparr> # refs)))"

definition parsePrint :: "string \<Rightarrow> error + Statement" where
  "parsePrint printStr0 =
     (let printStr = TrimSpace (TrimPrefix printStr0 ''print'') in
      if printStr = [] \<or> printStr = ''$0'' then Inr (PrintStatement [])
      else
        (case parseFieldList (Split printStr '','') of
           Inl e \<Rightarrow> Inl e
         | Inr refs \<Rightarrow> Inr (PrintStatement refs)))"

text \<open>
  In the \<^verbatim>\<open>+=\<close> branch \<^verbatim>\<open>strings.SplitN(stmtStr, "+=", 2)\<close> has two parts, since the
  statement contains \<^verbatim>\<open>+=\<close>.
\<close>

definition parseStatement :: "string \<Rightarrow> error + Statement" where
  "parseStatement stmtStr0 =
     (let stmtStr = TrimSpace stmtStr0 in
      if HasPrefix stmtStr ''print'' then parsePrint stmtStr
      else if Contains stmtStr ''+='' then
        (let parts = SplitN2 stmtStr ''+='';
             varName = TrimSpace (parts ! 0);
             exprStr = TrimSpace (parts ! 1) in
         case parseExpression exprStr of
           Inl e \<Rightarrow> Inl e
         | Inr expr \<Rightarrow>
             Inr (AssignStatement varName
                    (BinaryExpression (VariableExpression varName) ''+'' expr)))
      else Inl (UnsupportedStatement stmtStr))"

definition parseAction :: "string \<Rightarrow> error + 'n Action" where
  "parseAction actionStr0 =
     (let actionStr = TrimSpace actionStr0 in
      if \<not> HasPrefix actionStr ''{'' \<or> \<not> HasSuffix actionStr ''}'' then Inl ActionNotBraced
      else
        (let body = TrimSpace (take (length actionStr - 2) (drop 1 actionStr)) in
         if body \<noteq> [] then
           (case parseStatement body of
              Inl e \<Rightarrow> Inl e
            | Inr stmt \<Rightarrow> Inr \<lparr>Statements = [stmt], Variables = None\<rparr>)
         else Inr \<lparr>Statements = [], Variables = None\<rparr>))"

text \<open>The pattern part of \<open>parseRule\<close>: the pattern and the rule text left after it.\<close>

definition parsePattern :: "('n, 'r) golib \<Rightarrow> string \<Rightarrow> error + ('r Pattern \<times> string)" where
  "parsePattern lib ruleStr =
     (if HasPrefix ruleStr ''/'' then
        (case Index (drop 1 ruleStr) ''/'' of
           None \<Rightarrow> Inl MissingClosingSlash
         | Some endIdx \<Rightarrow>
             (case regexp_Compile lib (take endIdx (drop 1 ruleStr)) of
                None \<Rightarrow> Inl InvalidRegex
              | Some regex \<Rightarrow> Inr (RegexPattern regex, TrimSpace (drop (endIdx + 2) ruleStr))))
      else if HasPrefix ruleStr ''NR=='' then
        (let parts = SplitN2 ruleStr '' '';
             lineStr = TrimPrefix (parts ! 0) ''NR=='' in
         case Atoi lineStr of
           None \<Rightarrow> Inl (InvalidLineNumber lineStr)
         | Some lineNum \<Rightarrow>
             Inr (LinePattern lineNum,
                  if length parts > 1 then TrimSpace (parts ! 1) else []))
      else Inr (AlwaysPattern, ruleStr))"

definition parseRule :: "('n, 'r) golib \<Rightarrow> string \<Rightarrow> error + ('n, 'r) Rule" where
  "parseRule lib ruleStr0 =
     (case parsePattern lib (TrimSpace ruleStr0) of
        Inl e \<Rightarrow> Inl e
      | Inr (pat, ruleStr) \<Rightarrow>
          if ruleStr \<noteq> [] then
            (case parseAction ruleStr of
               Inl e \<Rightarrow> Inl e
             | Inr action \<Rightarrow> Inr \<lparr>Pattern = Some pat, Action = action\<rparr>)
          else
            Inr \<lparr>Pattern = Some pat,
                 Action = \<lparr>Statements = [PrintStatement []], Variables = None\<rparr>\<rparr>)"

text \<open>
  \<open>parseProgram\<close> has three parts, marked by its comments: BEGIN, END and the rules. The
  first two return the action they found, if any, and the program text that is left.
\<close>

definition parseBegin :: "string \<Rightarrow> error + ('n Action option \<times> string)" where
  "parseBegin prog =
     (if HasPrefix prog ''BEGIN'' then
        (case Index prog ''}'' of
           None \<Rightarrow> Inl MissingBeginBrace
         | Some endIdx \<Rightarrow>
             (case parseAction (take (endIdx + 1 - 5) (drop 5 prog)) of
                Inl e \<Rightarrow> Inl e
              | Inr action \<Rightarrow> Inr (Some action, TrimSpace (drop (endIdx + 1) prog))))
      else Inr (None, prog))"

definition parseEnd :: "string \<Rightarrow> error + ('n Action option \<times> string)" where
  "parseEnd prog =
     (case Index prog ''END'' of
        Some idx \<Rightarrow>
          (case parseAction (drop (idx + 3) prog) of
             Inl e \<Rightarrow> Inl e
           | Inr action \<Rightarrow> Inr (Some action, TrimSpace (take idx prog)))
      | None \<Rightarrow> Inr (None, prog))"

definition parseProgram :: "('n, 'r) golib \<Rightarrow> string \<Rightarrow> error + ('n, 'r) Program" where
  "parseProgram lib prog0 =
     (case parseBegin (TrimSpace prog0) of
        Inl e \<Rightarrow> Inl e
      | Inr (beginAct, prog1) \<Rightarrow>
          (case parseEnd prog1 of
             Inl e \<Rightarrow> Inl e
           | Inr (endAct, prog2) \<Rightarrow>
               if prog2 \<noteq> [] then
                 (case parseRule lib prog2 of
                    Inl e \<Rightarrow> Inl e
                  | Inr rule \<Rightarrow> Inr \<lparr>Begin = beginAct, Rules = [rule], End = endAct\<rparr>)
               else Inr \<lparr>Begin = beginAct, Rules = [], End = endAct\<rparr>))"

section \<open>The execution engine\<close>

definition splitFields :: "string \<Rightarrow> string \<Rightarrow> string list" where
  "splitFields line sep = (if sep = '' '' then strings_Fields line else Split line sep)"

text \<open>
  The loop over \<open>program.Rules\<close> for one line. Executing an action changes the action (its
  \<open>Variables\<close>), so the rules are returned as they are left.
\<close>

fun execRules ::
  "('n, 'r) golib \<Rightarrow> ('n, 'r) Rule list \<Rightarrow> Context
    \<Rightarrow> ('n, 'r) Rule list \<times> string list \<times> error option" where
  "execRules lib [] ctx = ([], [], None)"
| "execRules lib (r # rs) ctx =
     (if (case Pattern r of None \<Rightarrow> True | Some p \<Rightarrow> Match lib p ctx) then
        (case Action_Execute lib (Action r) ctx of
           (a', out1, Some e) \<Rightarrow> (r\<lparr>Action := a'\<rparr> # rs, out1, Some e)
         | (a', out1, None) \<Rightarrow>
             (case execRules lib rs ctx of
                (rs', out2, err) \<Rightarrow> (r\<lparr>Action := a'\<rparr> # rs', out1 @ out2, err)))
      else
        (case execRules lib rs ctx of
           (rs', out2, err) \<Rightarrow> (r # rs', out2, err)))"

text \<open>The four assignments that open the body of the scanner loop.\<close>

definition readRecord :: "Context \<Rightarrow> string \<Rightarrow> Context" where
  "readRecord ctx l =
     ctx\<lparr>NR := NR ctx + 1, Line := l,
         Fields := splitFields l (FS ctx),
         NF := int (length (splitFields l (FS ctx)))\<rparr>"

text \<open>The scanner loop of \<open>processInput\<close>, one step per line.\<close>

fun processLines ::
  "('n, 'r) golib \<Rightarrow> ('n, 'r) Program \<Rightarrow> Context \<Rightarrow> string list
    \<Rightarrow> ('n, 'r) Program \<times> Context \<times> string list \<times> error option" where
  "processLines lib program ctx [] = (program, ctx, [], None)"
| "processLines lib program ctx (l # ls) =
     (let ctx1 = readRecord ctx l in
      case execRules lib (Rules program) ctx1 of
        (rs', out1, Some e) \<Rightarrow> (program\<lparr>Rules := rs'\<rparr>, ctx1, out1, Some e)
      | (rs', out1, None) \<Rightarrow>
          (case processLines lib (program\<lparr>Rules := rs'\<rparr>) ctx1 ls of
             (program', ctx', out2, err) \<Rightarrow> (program', ctx', out1 @ out2, err)))"

text \<open>BEGIN and END: an absent action does nothing.\<close>

definition execOptional ::
  "('n, 'r) golib \<Rightarrow> 'n Action option \<Rightarrow> Context
    \<Rightarrow> 'n Action option \<times> string list \<times> error option" where
  "execOptional lib act ctx =
     (case act of
        None \<Rightarrow> (None, [], None)
      | Some a \<Rightarrow>
          (case Action_Execute lib a ctx of (a', out, err) \<Rightarrow> (Some a', out, err)))"

text \<open>
  \<open>processInput\<close> returns what the run wrote to standard output and the error it returned
  (\<open>None\<close> for nil).
\<close>

definition processInput ::
  "('n, 'r) golib \<Rightarrow> Reader \<Rightarrow> Options \<Rightarrow> string list \<times> error option" where
  "processInput lib reader opts =
     (case parseProgram lib (Program opts) of
        Inl e \<Rightarrow> ([], Some e)
      | Inr program \<Rightarrow>
          (let ctx = \<lparr>NR = 0, NF = 0, Fields = [], Line = [], FS = FieldSeparator opts\<rparr> in
           case execOptional lib (Begin program) ctx of
             (b', out1, Some e) \<Rightarrow> (out1, Some e)
           | (b', out1, None) \<Rightarrow>
               (case processLines lib (program\<lparr>Begin := b'\<rparr>) ctx (tokens reader) of
                  (program', ctx', out2, Some e) \<Rightarrow> (out1 @ out2, Some e)
                | (program', ctx', out2, None) \<Rightarrow>
                    (case scanErr reader of
                       Some e \<Rightarrow> (out1 @ out2, Some e)
                     | None \<Rightarrow>
                         (case execOptional lib (End program') ctx' of
                            (e', out3, err) \<Rightarrow> (out1 @ out2 @ out3, err))))))"

text \<open>
  The command: \<open>fsys\<close> maps a file name to its contents if it can be opened, \<open>stdin\<close> is
  standard input. The program text is the first argument (cobra refuses an empty
  argument list before \<open>RunE\<close> runs), the others are files, processed in order until
  the first error.
\<close>

definition processFile ::
  "('n, 'r) golib \<Rightarrow> (string \<rightharpoonup> Reader) \<Rightarrow> string \<Rightarrow> Options \<Rightarrow> string list \<times> error option" where
  "processFile lib fsys filename opts =
     (case fsys filename of
        None \<Rightarrow> ([], Some (CannotOpen filename))
      | Some file \<Rightarrow> processInput lib file opts)"

fun processFiles ::
  "('n, 'r) golib \<Rightarrow> (string \<rightharpoonup> Reader) \<Rightarrow> string list \<Rightarrow> Options \<Rightarrow> string list \<times> error option" where
  "processFiles lib fsys [] opts = ([], None)"
| "processFiles lib fsys (file # files) opts =
     (case processFile lib fsys file opts of
        (out1, Some e) \<Rightarrow> (out1, Some e)
      | (out1, None) \<Rightarrow>
          (case processFiles lib fsys files opts of (out2, err) \<Rightarrow> (out1 @ out2, err)))"

fun RunE ::
  "('n, 'r) golib \<Rightarrow> (string \<rightharpoonup> Reader) \<Rightarrow> Reader \<Rightarrow> Options \<Rightarrow> string list
    \<Rightarrow> string list \<times> error option" where
  "RunE lib fsys stdin opts [] = ([], Some TooFewArgs)"
| "RunE lib fsys stdin opts (prog # files) =
     (if files = [] then processInput lib stdin (opts\<lparr>Program := prog\<rparr>)
      else processFiles lib fsys files (opts\<lparr>Program := prog\<rparr>))"

section \<open>A library instance for concrete runs\<close>

text \<open>
  To run the model on concrete inputs the library parameters need values. \<open>smallLib\<close>
  stands for the Go library on a fragment only: numbers are integers (a float64 holds every
  integer below \<open>2 ^ 53\<close> exactly, and \<^verbatim>\<open>%v\<close> prints it in plain decimal digits), number
  texts are an optional sign and decimal digits, and regular expressions are letters and
  digits, which match as substrings. Outside this fragment it is not Go's library, and
  nothing below uses it there.
\<close>

fun showNat :: "nat \<Rightarrow> string" where
  "showNat n =
     (if n < 10 then [char_of (48 + n)] else showNat (n div 10) @ [char_of (48 + n mod 10)])"

declare showNat.simps [simp del]

definition showInt :: "int \<Rightarrow> string" where
  "showInt i = (if i < 0 then CHR ''-'' # showNat (nat (- i)) else showNat (nat i))"

definition isAlnum :: "char \<Rightarrow> bool" where
  "isAlnum c =
     (let x = (of_char c :: nat) in
      (48 \<le> x \<and> x \<le> 57) \<or> (65 \<le> x \<and> x \<le> 90) \<or> (97 \<le> x \<and> x \<le> 122))"

definition smallLib :: "(int, string) golib" where
  "smallLib =
     \<lparr>regexp_Compile = (\<lambda>p. if list_all isAlnum p then Some p else None),
      regexp_MatchString = (\<lambda>re s. Contains s re),
      strconv_ParseFloat = (\<lambda>s. case Atoi s of Some n \<Rightarrow> Parsed n | None \<Rightarrow> ErrSyntax),
      fmt_v = showInt,
      f_zero = 0,
      f_eq = (=),
      f_add = (+),
      f_sub = (-),
      f_mul = (*),
      f_div = (div)\<rparr>"


section \<open>Notions used in the statements\<close>

text \<open>
  The lines written by a run whose only rule has the pattern \<open>p\<close> and a bare \<open>print\<close> as
  its action, started in the context \<open>ctx\<close>.
\<close>

fun printed :: "('n, 'r) golib \<Rightarrow> 'r Pattern \<Rightarrow> Context \<Rightarrow> string list \<Rightarrow> string list" where
  "printed lib p ctx [] = []"
| "printed lib p ctx (l # ls) =
     (if Match lib p (readRecord ctx l) then [l] else []) @ printed lib p (readRecord ctx l) ls"

text \<open>
  The context in which the rules see the \<open>n\<close>-th line \<open>l\<close> of a run with the field
  separator \<open>sep\<close>.
\<close>

definition recordAt :: "string \<Rightarrow> int \<Rightarrow> string \<Rightarrow> Context" where
  "recordAt sep n l =
     \<lparr>NR = n, NF = int (length (splitFields l sep)), Fields = splitFields l sep, Line = l, FS = sep\<rparr>"

section \<open>Properties of the engine\<close>

lemma Statement_Execute_no_error: "snd (snd (Statement_Execute lib stmt ctx vars)) = None"
  by (cases stmt) simp_all

lemma execStatements_no_error: "snd (snd (execStatements lib stmts ctx vars)) = None"
proof (induction stmts arbitrary: vars)
  case Nil
  show ?case by simp
next
  case (Cons stmt stmts)
  obtain v1 o1 e1 where s: "Statement_Execute lib stmt ctx vars = (v1, o1, e1)"
    by (cases "Statement_Execute lib stmt ctx vars") auto
  with Statement_Execute_no_error [of lib stmt ctx vars] have "e1 = None" by simp
  moreover obtain v2 o2 e2 where r: "execStatements lib stmts ctx v1 = (v2, o2, e2)"
    by (cases "execStatements lib stmts ctx v1") auto
  moreover from r Cons.IH [of v1] have "e2 = None" by simp
  ultimately show ?case using s by simp
qed

lemma Action_Execute_no_error: "snd (snd (Action_Execute lib a ctx)) = None"
proof -
  obtain v o' e where
    r: "execStatements lib (Statements a) ctx (case Variables a of None \<Rightarrow> Map.empty | Some m \<Rightarrow> m) = (v, o', e)"
    using prod_cases3 by blast
  with execStatements_no_error [of lib "Statements a" ctx] have "e = None"
    by (metis snd_conv)
  with r show ?thesis by (simp add: Action_Execute_def)
qed

lemma Action_Execute_shape:
  "\<exists>a'. Action_Execute lib a ctx = (a', fst (snd (Action_Execute lib a ctx)), None)"
  using Action_Execute_no_error [of lib a ctx]
  by (cases "Action_Execute lib a ctx") auto

lemma execRules_print_rule:
  "execRules lib [\<lparr>Pattern = Some p, Action = \<lparr>Statements = [PrintStatement []], Variables = vs\<rparr>\<rparr>] ctx =
     (if Match lib p ctx
      then ([\<lparr>Pattern = Some p,
               Action = \<lparr>Statements = [PrintStatement []],
                         Variables = Some (case vs of None \<Rightarrow> Map.empty | Some m \<Rightarrow> m)\<rparr>\<rparr>],
            [Line ctx], None)
      else ([\<lparr>Pattern = Some p, Action = \<lparr>Statements = [PrintStatement []], Variables = vs\<rparr>\<rparr>],
            [], None))"
  by (simp add: Action_Execute_def)

lemma Line_readRecord: "Line (readRecord ctx l) = l"
  by (simp add: readRecord_def)

lemma processLines_print_rule:
  "Rules program = [\<lparr>Pattern = Some p,
                     Action = \<lparr>Statements = [PrintStatement []], Variables = vs\<rparr>\<rparr>] \<Longrightarrow>
   \<exists>program' ctx'. processLines lib program ctx ls = (program', ctx', printed lib p ctx ls, None)
      \<and> End program' = End program"
proof (induction ls arbitrary: program ctx vs)
  case Nil
  then show ?case by simp
next
  case (Cons l ls)
  have "\<exists>vs'. execRules lib (Rules program) (readRecord ctx l) =
      ([\<lparr>Pattern = Some p, Action = \<lparr>Statements = [PrintStatement []], Variables = vs'\<rparr>\<rparr>],
       if Match lib p (readRecord ctx l) then [l] else [], None)"
    by (cases "Match lib p (readRecord ctx l)")
      (simp_all add: Cons.prems execRules_print_rule Line_readRecord del: execRules.simps)
  then obtain vs' where step: "execRules lib (Rules program) (readRecord ctx l) =
      ([\<lparr>Pattern = Some p, Action = \<lparr>Statements = [PrintStatement []], Variables = vs'\<rparr>\<rparr>],
       if Match lib p (readRecord ctx l) then [l] else [], None)"
    by blast
  let ?rs = "[\<lparr>Pattern = Some p, Action = \<lparr>Statements = [PrintStatement []], Variables = vs'\<rparr>\<rparr>]"
  have "Rules (program\<lparr>Rules := ?rs\<rparr>) = ?rs" by simp
  from Cons.IH [OF this, of "readRecord ctx l"]
  obtain program' ctx' where
    rest: "processLines lib (program\<lparr>Rules := ?rs\<rparr>) (readRecord ctx l) ls =
             (program', ctx', printed lib p (readRecord ctx l) ls, None)"
    and e: "End program' = End program"
    by auto
  show ?case
    using step rest e by (simp add: Let_def)
qed

lemma printed_always: "printed lib AlwaysPattern ctx ls = ls"
  by (induction ls arbitrary: ctx) simp_all

lemma processInput_print_rule:
  assumes "parseProgram lib (Program opts) =
      Inr \<lparr>Begin = None,
           Rules = [\<lparr>Pattern = Some p,
                     Action = \<lparr>Statements = [PrintStatement []], Variables = None\<rparr>\<rparr>],
           End = None\<rparr>"
  shows "processInput lib reader opts =
    (printed lib p \<lparr>NR = 0, NF = 0, Fields = [], Line = [], FS = FieldSeparator opts\<rparr> (tokens reader),
     scanErr reader)"
proof -
  let ?prog = "\<lparr>Begin = None,
           Rules = [\<lparr>Pattern = Some p,
                     Action = \<lparr>Statements = [PrintStatement []], Variables = None\<rparr>\<rparr>],
           End = None\<rparr> :: ('a, 'b) Program"
  let ?ctx = "\<lparr>NR = 0, NF = 0, Fields = [], Line = [], FS = FieldSeparator opts\<rparr>"
  have "Rules ?prog = [\<lparr>Pattern = Some p,
                     Action = \<lparr>Statements = [PrintStatement []], Variables = None\<rparr>\<rparr>]"
    by simp
  from processLines_print_rule [OF this, of lib ?ctx "tokens reader"]
  obtain program' ctx' where
    run: "processLines lib ?prog ?ctx (tokens reader) = (program', ctx', printed lib p ?ctx (tokens reader), None)"
    and e: "End program' = None"
    by auto
  show ?thesis
    using assms run e
    by (simp add: processInput_def execOptional_def split: option.split)
qed

section \<open>Printing every line\<close>

lemma parse_print: "parseProgram lib ''{ print }'' =
  Inr \<lparr>Begin = None,
       Rules = [\<lparr>Pattern = Some AlwaysPattern,
                 Action = \<lparr>Statements = [PrintStatement []], Variables = None\<rparr>\<rparr>],
       End = None\<rparr>"
proof -
  have f1: "TrimSpace ''{ print }'' = ''{ print }''" by code_simp
  have f2: "Index ''{ print }'' ''END'' = None" by code_simp
  have f3: "TrimSpace '' print '' = ''print''" by code_simp
  have f4: "parseStatement ''print'' = Inr (PrintStatement [])" by code_simp
  show ?thesis
    by (simp add: parseProgram_def parseBegin_def parseEnd_def parseRule_def parsePattern_def
        parseAction_def HasPrefix_def HasSuffix_def f1 f2 f3 f4)
qed

text \<open>
  Claim C8. For every input line sequence, running the program \<^verbatim>\<open>{ print }\<close> writes
  the input lines unchanged, line for line and in the same order, whatever the field
  separator; the run ends with the scanner's error, if it had one.
\<close>

theorem print_copies_input:
  "processInput lib reader \<lparr>FieldSeparator = sep, Program = ''{ print }''\<rparr> =
     (tokens reader, scanErr reader)"
  using processInput_print_rule [of lib "\<lparr>FieldSeparator = sep, Program = ''{ print }''\<rparr>" AlwaysPattern reader]
  by (simp add: parse_print printed_always)

theorem print_copies_input_witness:
  "processInput smallLib \<lparr>tokens = [''a  b'', '''', ''c''], scanErr = None\<rparr>
      \<lparr>FieldSeparator = '','', Program = ''{ print }''\<rparr> = ([''a  b'', '''', ''c''], None)"
  using print_copies_input [of smallLib "\<lparr>tokens = [''a  b'', '''', ''c''], scanErr = None\<rparr>" "'',''"]
  by simp

section \<open>Parse errors\<close>

text \<open>
  Claim C6. When parsing the program text fails, \<open>processInput\<close> returns the parse error
  and has written nothing: the result does not depend on the input, which is never read,
  and no action, BEGIN included, has run. The instance after the theorem is a program
  whose only error is in the END section, and one whose action body lacks the closing brace.
\<close>

theorem parse_failure_is_atomic:
  "parseProgram lib (Program opts) = Inl e \<Longrightarrow> processInput lib reader opts = ([], Some e)"
  by (simp add: processInput_def)


lemma parse_bad_end:
  "parseProgram lib ''BEGIN { print } END { print'' = Inl ActionNotBraced"
proof -
  have f1: "TrimSpace ''BEGIN { print } END { print'' = ''BEGIN { print } END { print''"
    by code_simp
  have f2: "Index ''BEGIN { print } END { print'' ''}'' = Some 14" by code_simp
  have f3: "TrimSpace '' { print }'' = ''{ print }''" by code_simp
  have f4: "TrimSpace '' print '' = ''print''" by code_simp
  have f5: "parseStatement ''print'' = Inr (PrintStatement [])" by code_simp
  have f6: "TrimSpace '' END { print'' = ''END { print''" by code_simp
  have f7: "Index ''END { print'' ''END'' = Some 0" by code_simp
  have f8: "TrimSpace '' { print'' = ''{ print''" by code_simp
  show ?thesis
    by (simp add: parseProgram_def parseBegin_def parseEnd_def parseAction_def
        HasPrefix_def HasSuffix_def f1 f2 f3 f4 f5 f6 f7 f8)
qed

lemma parse_open_brace: "parseProgram lib ''{ print $1'' = Inl ActionNotBraced"
proof -
  have f1: "TrimSpace ''{ print $1'' = ''{ print $1''" by code_simp
  have f2: "Index ''{ print $1'' ''END'' = None" by code_simp
  show ?thesis
    by (simp add: parseProgram_def parseBegin_def parseEnd_def parseRule_def parsePattern_def
        parseAction_def HasPrefix_def HasSuffix_def f1 f2)
qed

theorem parse_failure_is_atomic_witness:
  "parseProgram smallLib (Program \<lparr>FieldSeparator = '' '', Program = ''BEGIN { print } END { print''\<rparr>)
      = Inl ActionNotBraced
   \<and> processInput smallLib \<lparr>tokens = [''a'', ''b''], scanErr = None\<rparr>
        \<lparr>FieldSeparator = '' '', Program = ''BEGIN { print } END { print''\<rparr> = ([], Some ActionNotBraced)
   \<and> parseProgram smallLib (Program \<lparr>FieldSeparator = '' '', Program = ''{ print $1''\<rparr>)
      = Inl ActionNotBraced
   \<and> processInput smallLib \<lparr>tokens = [''a'', ''b''], scanErr = None\<rparr>
        \<lparr>FieldSeparator = '' '', Program = ''{ print $1''\<rparr> = ([], Some ActionNotBraced)"
proof -
  have h1: "parseProgram smallLib (Program \<lparr>FieldSeparator = '' '', Program = ''BEGIN { print } END { print''\<rparr>)
      = Inl ActionNotBraced"
    by (simp add: parse_bad_end)
  have h2: "parseProgram smallLib (Program \<lparr>FieldSeparator = '' '', Program = ''{ print $1''\<rparr>)
      = Inl ActionNotBraced"
    by (simp add: parse_open_brace)
  show ?thesis
    using h1 h2 parse_failure_is_atomic [OF h1] parse_failure_is_atomic [OF h2] by simp
qed

section \<open>Variables across the rule and END\<close>

text \<open>One rule whose action is one assignment writes nothing and leaves END as it is.\<close>

lemma processLines_assign_rule:
  "Rules program = [\<lparr>Pattern = Some AlwaysPattern,
                     Action = \<lparr>Statements = [AssignStatement v e], Variables = vs\<rparr>\<rparr>] \<Longrightarrow>
   \<exists>program' ctx'. processLines lib program ctx ls = (program', ctx', [], None)
      \<and> End program' = End program"
proof (induction ls arbitrary: program ctx vs)
  case Nil
  then show ?case by simp
next
  case (Cons l ls)
  have "\<exists>vs'. execRules lib (Rules program) (readRecord ctx l) =
      ([\<lparr>Pattern = Some AlwaysPattern,
         Action = \<lparr>Statements = [AssignStatement v e], Variables = vs'\<rparr>\<rparr>], [], None)"
    by (simp add: Cons.prems Action_Execute_def Let_def)
  then obtain vs' where step: "execRules lib (Rules program) (readRecord ctx l) =
      ([\<lparr>Pattern = Some AlwaysPattern,
         Action = \<lparr>Statements = [AssignStatement v e], Variables = vs'\<rparr>\<rparr>], [], None)"
    by blast
  let ?rs = "[\<lparr>Pattern = Some (AlwaysPattern :: 'b Pattern),
         Action = \<lparr>Statements = [AssignStatement v e], Variables = vs'\<rparr>\<rparr>]"
  have "Rules (program\<lparr>Rules := ?rs\<rparr>) = ?rs" by simp
  from Cons.IH [OF this, of "readRecord ctx l"]
  obtain program' ctx' where
    rest: "processLines lib (program\<lparr>Rules := ?rs\<rparr>) (readRecord ctx l) ls = (program', ctx', [], None)"
    and e: "End program' = End program"
    by auto
  show ?case
    using step rest e by (simp add: Let_def)
qed

lemma parse_sum: "parseProgram lib ''{ sum+=$1 } END { print sum }'' =
  Inr \<lparr>Begin = None,
       Rules = [\<lparr>Pattern = Some AlwaysPattern,
                 Action = \<lparr>Statements = [AssignStatement ''sum''
                    (BinaryExpression (VariableExpression ''sum'') ''+'' (FieldExpression 1))],
                   Variables = None\<rparr>\<rparr>],
       End = Some \<lparr>Statements = [PrintStatement [\<lparr>Field' = 0, Var = ''sum''\<rparr>]], Variables = None\<rparr>\<rparr>"
proof -
  have f1: "TrimSpace ''{ sum+=$1 } END { print sum }'' = ''{ sum+=$1 } END { print sum }''" by code_simp
  have f2: "Index ''{ sum+=$1 } END { print sum }'' ''END'' = Some 12" by code_simp
  have f3: "TrimSpace '' { print sum }'' = ''{ print sum }''" by code_simp
  have f4: "TrimSpace '' print sum '' = ''print sum''" by code_simp
  have f5: "parseStatement ''print sum'' = Inr (PrintStatement [\<lparr>Field' = 0, Var = ''sum''\<rparr>])" by code_simp
  have f6: "TrimSpace ''{ sum+=$1 } '' = ''{ sum+=$1 }''" by code_simp
  have f7: "TrimSpace ''{ sum+=$1 }'' = ''{ sum+=$1 }''" by code_simp
  have f8: "TrimSpace '' sum+=$1 '' = ''sum+=$1''" by code_simp
  have f9: "parseStatement ''sum+=$1'' = Inr (AssignStatement ''sum''
                    (BinaryExpression (VariableExpression ''sum'') ''+'' (FieldExpression 1)))" by code_simp
  show ?thesis
    by (simp add: parseProgram_def parseBegin_def parseEnd_def parseRule_def parsePattern_def
        parseAction_def HasPrefix_def HasSuffix_def f1 f2 f3 f4 f5 f6 f7 f8 f9)
qed

text \<open>
  Whatever the input lines, END's \<open>print sum\<close> reads the END action's own, empty
  \<open>Variables\<close> and writes the rendering of zero.
\<close>

lemma sum_program_prints_zero:
  "processInput lib reader \<lparr>FieldSeparator = sep, Program = ''{ sum+=$1 } END { print sum }''\<rparr> =
     (case scanErr reader of None \<Rightarrow> ([fmt_v lib (f_zero lib)], None) | Some e \<Rightarrow> ([], Some e))"
proof -
  let ?rule = "\<lparr>Pattern = Some (AlwaysPattern :: 'b Pattern),
                 Action = \<lparr>Statements = [AssignStatement ''sum''
                    (BinaryExpression (VariableExpression ''sum'') ''+'' (FieldExpression 1))],
                   Variables = (None :: (string \<rightharpoonup> 'a) option)\<rparr>\<rparr>"
  let ?end = "\<lparr>Statements = [PrintStatement [\<lparr>Field' = 0, Var = ''sum''\<rparr>]],
      Variables = (None :: (string \<rightharpoonup> 'a) option)\<rparr>"
  let ?prog = "\<lparr>Begin = None, Rules = [?rule], End = Some ?end\<rparr>"
  let ?ctx = "\<lparr>NR = 0, NF = 0, Fields = [], Line = [], FS = sep\<rparr>"
  have "Rules ?prog = [?rule]" by simp
  from processLines_assign_rule [OF this, of lib ?ctx "tokens reader"]
  obtain program' ctx' where
    run: "processLines lib ?prog ?ctx (tokens reader) = (program', ctx', [], None)"
    and e: "End program' = Some ?end"
    by auto
  show ?thesis
    using run e
    by (simp add: processInput_def parse_sum execOptional_def Action_Execute_def GetValue_def
        mapGet_def split: option.split)
qed

text \<open>
  Claim C1. The claim says that variables form one store shared by BEGIN, the rule and
  END, so that \<^verbatim>\<open>{ sum+=$1 } END { print sum }\<close> on the lines \<^verbatim>\<open>3\<close>, \<^verbatim>\<open>4 x\<close>, \<^verbatim>\<open>abc\<close>
  prints 7. In the code every \<open>Action\<close> has its own \<open>Variables\<close>: on every input the run
  prints the rendering of zero, once, at the end, and on these lines it prints 0.
\<close>

theorem end_does_not_see_rule_variables:
  "processInput lib reader \<lparr>FieldSeparator = sep, Program = ''{ sum+=$1 } END { print sum }''\<rparr> =
     (case scanErr reader of None \<Rightarrow> ([fmt_v lib (f_zero lib)], None) | Some e \<Rightarrow> ([], Some e))
   \<and> processInput smallLib \<lparr>tokens = [''3'', ''4 x'', ''abc''], scanErr = None\<rparr>
      \<lparr>FieldSeparator = '' '', Program = ''{ sum+=$1 } END { print sum }''\<rparr> = ([''0''], None)"
proof -
  have "processInput smallLib \<lparr>tokens = [''3'', ''4 x'', ''abc''], scanErr = None\<rparr>
      \<lparr>FieldSeparator = '' '', Program = ''{ sum+=$1 } END { print sum }''\<rparr> = ([''0''], None)"
    by code_simp
  with sum_program_prints_zero [of lib reader sep] show ?thesis by simp
qed


section \<open>Programs without a rule\<close>

lemma parse_empty: "parseProgram lib [] = Inr \<lparr>Begin = None, Rules = [], End = None\<rparr>"
proof -
  have f1: "TrimSpace [] = []" by code_simp
  show ?thesis
    by (simp add: parseProgram_def parseBegin_def parseEnd_def HasPrefix_def f1)
qed

text \<open>
  Claim C2, as stated, fails on the empty program text: no BEGIN and no END section is
  found, the remaining text is empty, and \<open>parseProgram\<close> returns a program with no
  rule instead of an error; the run then writes nothing and returns nil.
\<close>

theorem empty_program_is_accepted:
  "parseBegin (TrimSpace []) = Inr (None :: int Action option, [])
   \<and> parseEnd [] = Inr (None :: int Action option, [])
   \<and> parseProgram smallLib [] = Inr \<lparr>Begin = None, Rules = [], End = None\<rparr>
   \<and> processInput smallLib \<lparr>tokens = [''a'', ''b''], scanErr = None\<rparr>
        \<lparr>FieldSeparator = '' '', Program = []\<rparr> = ([], None)"
proof -
  have f1: "TrimSpace [] = []" by code_simp
  show ?thesis
    by (simp add: parse_empty processInput_def execOptional_def parseBegin_def parseEnd_def
        HasPrefix_def f1)
qed

text \<open>
  Claim C2, amended. When the text left after the BEGIN and END sections is empty,
  \<open>parseProgram\<close> never fails at that point: whether or not a BEGIN or an END section was
  found, it returns the program with the actions found and no middle rule.
\<close>

theorem empty_remainder_accepted:
  "parseBegin (TrimSpace prog) = Inr (b, p1) \<Longrightarrow> parseEnd p1 = Inr (e, []) \<Longrightarrow>
   parseProgram lib prog = Inr \<lparr>Begin = b, Rules = [], End = e\<rparr>"
  by (simp add: parseProgram_def)

theorem empty_remainder_accepted_witness:
  "parseBegin (TrimSpace ''BEGIN { print }'') =
      Inr (Some \<lparr>Statements = [PrintStatement []], Variables = (None :: (string \<rightharpoonup> int) option)\<rparr>, [])
   \<and> parseEnd [] = Inr (None :: int Action option, [])
   \<and> parseProgram smallLib ''BEGIN { print }'' =
      Inr \<lparr>Begin = Some \<lparr>Statements = [PrintStatement []], Variables = None\<rparr>, Rules = [], End = None\<rparr>"
proof -
  have f1: "TrimSpace ''BEGIN { print }'' = ''BEGIN { print }''" by code_simp
  have f2: "Index ''BEGIN { print }'' ''}'' = Some 14" by code_simp
  have f3: "TrimSpace '' { print }'' = ''{ print }''" by code_simp
  have f4: "TrimSpace '' print '' = ''print''" by code_simp
  have f5: "parseStatement ''print'' = Inr (PrintStatement [])" by code_simp
  have f6: "TrimSpace [] = []" by code_simp
  have h1: "parseBegin (TrimSpace ''BEGIN { print }'') =
      Inr (Some \<lparr>Statements = [PrintStatement []], Variables = (None :: (string \<rightharpoonup> int) option)\<rparr>, [])"
    by (simp add: parseBegin_def parseAction_def HasPrefix_def HasSuffix_def f1 f2 f3 f4 f5 f6)
  have h2: "parseEnd [] = Inr (None :: int Action option, [])"
    by (simp add: parseEnd_def)
  show ?thesis
    using h1 h2 empty_remainder_accepted [OF h1 h2, of smallLib] by simp
qed

section \<open>Expressions and print\<close>



text \<open>
  Claim C10. A print statement with a non-empty field list writes one line: the values
  of its references joined by single spaces. A reference with no variable name and index
  0 is the whole line, one with an index within the fields is that field, one with an
  index beyond the number of fields is the empty string, and one with a variable name
  is the rendering of the variable's value: of the value stored for the name when the
  variable is set, and of zero when it was never set.
\<close>

theorem print_joins_values:
  "(fs \<noteq> [] \<longrightarrow>
      Statement_Execute lib (PrintStatement fs) ctx vars =
        (vars, [Join (map (\<lambda>f. GetValue lib f ctx vars) fs) '' ''], None))
   \<and> GetValue lib \<lparr>Field' = 0, Var = []\<rparr> ctx vars = Line ctx
   \<and> (0 < k \<and> k \<le> int (length (Fields ctx)) \<longrightarrow>
        GetValue lib \<lparr>Field' = k, Var = []\<rparr> ctx vars = Fields ctx ! nat (k - 1))
   \<and> (int (length (Fields ctx)) < k \<longrightarrow> GetValue lib \<lparr>Field' = k, Var = []\<rparr> ctx vars = [])
   \<and> (v \<noteq> [] \<longrightarrow> GetValue lib \<lparr>Field' = j, Var = v\<rparr> ctx vars = fmt_v lib (mapGet lib vars v))
   \<and> (vars v = None \<longrightarrow> mapGet lib vars v = f_zero lib)
   \<and> (vars v = Some x \<longrightarrow> mapGet lib vars v = x)
   \<and> (v \<noteq> [] \<and> vars v = Some x \<longrightarrow>
        GetValue lib \<lparr>Field' = j, Var = v\<rparr> ctx vars = fmt_v lib x)
   \<and> (v \<noteq> [] \<and> vars v = None \<longrightarrow>
        GetValue lib \<lparr>Field' = j, Var = v\<rparr> ctx vars = fmt_v lib (f_zero lib))"
  by (auto simp: GetValue_def mapGet_def)

section \<open>Runs over several files\<close>

text \<open>
  Claim C9. Two runs in the same process, each parsing the program and starting from a
  fresh context, on inputs with the same lines write the same output: when the command
  is given two files with equal contents, the second run repeats what the first wrote
  (unless the first one failed, which ends the command).
\<close>

theorem runs_do_not_share_state:
  "fsys f = Some reader \<Longrightarrow> fsys g = Some reader \<Longrightarrow>
   RunE lib fsys stdin opts [prog, f, g] =
     (case processInput lib reader (opts\<lparr>Program := prog\<rparr>) of
        (out, None) \<Rightarrow> (out @ out, None)
      | (out, Some e) \<Rightarrow> (out, Some e))"
  by (simp add: processFile_def split: prod.splits option.splits)


theorem print_joins_values_witness:
  "fst (snd (Statement_Execute smallLib
       (PrintStatement [\<lparr>Field' = 2, Var = []\<rparr>, \<lparr>Field' = 0, Var = []\<rparr>,
                        \<lparr>Field' = 5, Var = []\<rparr>, \<lparr>Field' = 0, Var = ''sum''\<rparr>])
       \<lparr>NR = 1, NF = 2, Fields = [''4'', ''x''], Line = ''4 x'', FS = '' ''\<rparr> Map.empty))
     = [''x 4 x  0'']
   \<and> GetValue smallLib \<lparr>Field' = 0, Var = []\<rparr>
        \<lparr>NR = 1, NF = 2, Fields = [''4'', ''x''], Line = ''4 x'', FS = '' ''\<rparr> Map.empty = ''4 x''
   \<and> GetValue smallLib \<lparr>Field' = 2, Var = []\<rparr>
        \<lparr>NR = 1, NF = 2, Fields = [''4'', ''x''], Line = ''4 x'', FS = '' ''\<rparr> Map.empty = ''x''
   \<and> GetValue smallLib \<lparr>Field' = 5, Var = []\<rparr>
        \<lparr>NR = 1, NF = 2, Fields = [''4'', ''x''], Line = ''4 x'', FS = '' ''\<rparr> Map.empty = []
   \<and> GetValue smallLib \<lparr>Field' = 0, Var = ''sum''\<rparr>
        \<lparr>NR = 1, NF = 2, Fields = [''4'', ''x''], Line = ''4 x'', FS = '' ''\<rparr> Map.empty = ''0''
   \<and> GetValue smallLib \<lparr>Field' = 0, Var = ''sum''\<rparr>
        \<lparr>NR = 1, NF = 2, Fields = [''4'', ''x''], Line = ''4 x'', FS = '' ''\<rparr>
        [''sum'' \<mapsto> 7, ''n'' \<mapsto> - 12] = ''7''
   \<and> GetValue smallLib \<lparr>Field' = 0, Var = ''n''\<rparr>
        \<lparr>NR = 1, NF = 2, Fields = [''4'', ''x''], Line = ''4 x'', FS = '' ''\<rparr>
        [''sum'' \<mapsto> 7, ''n'' \<mapsto> - 12] = ''-12''
   \<and> fst (snd (Statement_Execute smallLib
       (PrintStatement [\<lparr>Field' = 1, Var = []\<rparr>, \<lparr>Field' = 0, Var = ''sum''\<rparr>,
                        \<lparr>Field' = 0, Var = ''n''\<rparr>, \<lparr>Field' = 0, Var = ''unset''\<rparr>])
       \<lparr>NR = 1, NF = 2, Fields = [''4'', ''x''], Line = ''4 x'', FS = '' ''\<rparr>
       [''sum'' \<mapsto> 7, ''n'' \<mapsto> - 12]))
     = [''4 7 -12 0'']"
proof -
  let ?ctx = "\<lparr>NR = 1, NF = 2, Fields = [''4'', ''x''], Line = ''4 x'', FS = '' ''\<rparr>"
  let ?vs = "[''sum'' \<mapsto> 7, ''n'' \<mapsto> - 12] :: string \<rightharpoonup> int"
  let ?gs = "[\<lparr>Field' = 1, Var = []\<rparr>, \<lparr>Field' = 0, Var = ''sum''\<rparr>,
              \<lparr>Field' = 0, Var = ''n''\<rparr>, \<lparr>Field' = 0, Var = ''unset''\<rparr>]"
  have r7: "fmt_v smallLib 7 = ''7''" by code_simp
  have r12: "fmt_v smallLib (- 12) = ''-12''" by code_simp
  have s7: "GetValue smallLib \<lparr>Field' = 0, Var = ''sum''\<rparr> ?ctx ?vs = ''7''"
    using print_joins_values [where lib = smallLib and ctx = ?ctx and vars = ?vs
        and v = "''sum''" and j = 0 and x = 7] r7
    by simp
  have s12: "GetValue smallLib \<lparr>Field' = 0, Var = ''n''\<rparr> ?ctx ?vs = ''-12''"
    using print_joins_values [where lib = smallLib and ctx = ?ctx and vars = ?vs
        and v = "''n''" and j = 0 and x = "- 12"] r12
    by simp
  let ?fs = "[\<lparr>Field' = 2, Var = []\<rparr>, \<lparr>Field' = 0, Var = []\<rparr>,
              \<lparr>Field' = 5, Var = []\<rparr>, \<lparr>Field' = 0, Var = ''sum''\<rparr>]"
  have z: "fmt_v smallLib (f_zero smallLib) = ''0''" by code_simp
  have g0: "GetValue smallLib \<lparr>Field' = 0, Var = []\<rparr> ?ctx Map.empty = ''4 x''"
    using print_joins_values [where lib = smallLib and ctx = ?ctx and vars = Map.empty] by simp
  have g2: "GetValue smallLib \<lparr>Field' = 2, Var = []\<rparr> ?ctx Map.empty = ''x''"
    using print_joins_values [where lib = smallLib and ctx = ?ctx and vars = Map.empty and k = 2]
    by simp
  have g5: "GetValue smallLib \<lparr>Field' = 5, Var = []\<rparr> ?ctx Map.empty = []"
    using print_joins_values [where lib = smallLib and ctx = ?ctx and vars = Map.empty and k = 5]
    by simp
  have gv: "GetValue smallLib \<lparr>Field' = 0, Var = ''sum''\<rparr> ?ctx Map.empty = ''0''"
    using print_joins_values [where lib = smallLib and ctx = ?ctx and vars = Map.empty
        and v = "''sum''" and j = 0] z
    by simp
  have "Statement_Execute smallLib (PrintStatement ?fs) ?ctx Map.empty =
      (Map.empty, [Join (map (\<lambda>f. GetValue smallLib f ?ctx Map.empty) ?fs) '' ''], None)"
    using print_joins_values [where lib = smallLib and ctx = ?ctx and vars = Map.empty and fs = ?fs]
    by simp
  then have p0: "fst (snd (Statement_Execute smallLib (PrintStatement ?fs) ?ctx Map.empty)) = [''x 4 x  0'']"
    using g0 g2 g5 gv by simp
  have su: "GetValue smallLib \<lparr>Field' = 0, Var = ''unset''\<rparr> ?ctx ?vs = ''0''"
    using print_joins_values [where lib = smallLib and ctx = ?ctx and vars = ?vs
        and v = "''unset''" and j = 0] z
    by simp
  have s1: "GetValue smallLib \<lparr>Field' = 1, Var = []\<rparr> ?ctx ?vs = ''4''"
    using print_joins_values [where lib = smallLib and ctx = ?ctx and vars = ?vs and k = 1]
    by simp
  have "Statement_Execute smallLib (PrintStatement ?gs) ?ctx ?vs =
      (?vs, [Join (map (\<lambda>f. GetValue smallLib f ?ctx ?vs) ?gs) '' ''], None)"
    using print_joins_values [where lib = smallLib and ctx = ?ctx and vars = ?vs and fs = ?gs]
    by simp
  then have p1: "fst (snd (Statement_Execute smallLib (PrintStatement ?gs) ?ctx ?vs)) = [''4 7 -12 0'']"
    using s1 s7 s12 su by simp
  from p0 p1 g0 g2 g5 gv s7 s12 show ?thesis by simp
qed

theorem runs_do_not_share_state_witness:
  "RunE smallLib [''a.txt'' \<mapsto> \<lparr>tokens = [''3 x'', ''4''], scanErr = None\<rparr>,
                  ''b.txt'' \<mapsto> \<lparr>tokens = [''3 x'', ''4''], scanErr = None\<rparr>]
      \<lparr>tokens = [], scanErr = None\<rparr> \<lparr>FieldSeparator = '' '', Program = []\<rparr>
      [''{ print $1 }'', ''a.txt'', ''b.txt'']
    = ([''3'', ''4'', ''3'', ''4''], None)"
proof -
  let ?rd = "\<lparr>tokens = [''3 x'', ''4''], scanErr = None\<rparr>"
  let ?fsys = "[''a.txt'' \<mapsto> ?rd, ''b.txt'' \<mapsto> ?rd]"
  have a: "?fsys ''a.txt'' = Some ?rd" by simp
  have b: "?fsys ''b.txt'' = Some ?rd" by simp
  have r: "processInput smallLib ?rd \<lparr>FieldSeparator = '' '', Program = ''{ print $1 }''\<rparr>
      = ([''3'', ''4''], None)"
    by code_simp
  have u: "\<lparr>FieldSeparator = '' '', Program = []\<rparr>\<lparr>Program := ''{ print $1 }''\<rparr>
      = \<lparr>FieldSeparator = '' '', Program = ''{ print $1 }''\<rparr>"
    by simp
  have "RunE smallLib ?fsys \<lparr>tokens = [], scanErr = None\<rparr> \<lparr>FieldSeparator = '' '', Program = []\<rparr>
      [''{ print $1 }'', ''a.txt'', ''b.txt'']
    = (case processInput smallLib ?rd (\<lparr>FieldSeparator = '' '', Program = []\<rparr>\<lparr>Program := ''{ print $1 }''\<rparr>) of
        (out, None) \<Rightarrow> (out @ out, None)
      | (out, Some e) \<Rightarrow> (out, Some e))"
    by (rule runs_do_not_share_state [OF a b])
  also have "\<dots> = ([''3'', ''4'', ''3'', ''4''], None)"
    unfolding u r by simp
  finally show ?thesis .
qed

section \<open>Line-number patterns\<close>

lemma readRecord_recordAt: "readRecord ctx l = recordAt (FS ctx) (NR ctx + 1) l"
  by (simp add: readRecord_def recordAt_def)

lemma processLines_line_rule:
  "Rules program = [\<lparr>Pattern = Some (LinePattern k), Action = a\<rparr>] \<Longrightarrow>
   \<exists>program' ctx'. processLines lib program ctx ls =
      (program', ctx',
       (if NR ctx < k \<and> k \<le> NR ctx + int (length ls)
        then fst (snd (Action_Execute lib a (recordAt (FS ctx) k (ls ! nat (k - NR ctx - 1)))))
        else []),
       None)
      \<and> End program' = End program"
proof (induction ls arbitrary: program ctx a)
  case Nil
  then show ?case by auto
next
  case (Cons l ls)
  let ?ctx1 = "readRecord ctx l"
  have nr: "NR ?ctx1 = NR ctx + 1" and fs: "FS ?ctx1 = FS ctx"
    by (simp_all add: readRecord_def)
  show ?case
  proof (cases "k = NR ctx + 1")
    case True
    obtain a' out where ex: "Action_Execute lib a ?ctx1 = (a', out, None)"
      using Action_Execute_shape by blast
    let ?rs = "[\<lparr>Pattern = Some (LinePattern k), Action = a'\<rparr>]"
    have step: "execRules lib (Rules program) ?ctx1 = (?rs, out, None)"
      using ex by (simp add: Cons.prems nr True)
    have "Rules (program\<lparr>Rules := ?rs\<rparr>) = ?rs" by simp
    from Cons.IH [OF this, of ?ctx1]
    obtain program' ctx' where
      rest: "processLines lib (program\<lparr>Rules := ?rs\<rparr>) ?ctx1 ls = (program', ctx', [], None)"
      and e: "End program' = End program"
      by (auto simp: nr True)
    have "recordAt (FS ctx) k l = ?ctx1"
      by (simp add: readRecord_recordAt True)
    then have "fst (snd (Action_Execute lib a (recordAt (FS ctx) k l))) = out"
      using ex by simp
    then show ?thesis
      using step rest e True by (simp add: Let_def)
  next
    case False
    let ?rs = "[\<lparr>Pattern = Some (LinePattern k), Action = a\<rparr>]"
    have step: "execRules lib (Rules program) ?ctx1 = (?rs, [], None)"
      using False by (simp add: Cons.prems nr)
    have "Rules (program\<lparr>Rules := ?rs\<rparr>) = ?rs" by simp
    from Cons.IH [OF this, of ?ctx1]
    obtain program' ctx' where
      rest: "processLines lib (program\<lparr>Rules := ?rs\<rparr>) ?ctx1 ls =
        (program', ctx',
         (if NR ctx + 1 < k \<and> k \<le> NR ctx + 1 + int (length ls)
          then fst (snd (Action_Execute lib a (recordAt (FS ctx) k (ls ! nat (k - (NR ctx + 1) - 1)))))
          else []),
         None)"
      and e: "End program' = End program"
      by (auto simp: nr fs)
    have idx: "(l # ls) ! nat (k - NR ctx - 1) = ls ! nat (k - (NR ctx + 1) - 1)"
      if "NR ctx < k"
    proof -
      have "nat (k - NR ctx - 1) = Suc (nat (k - (NR ctx + 1) - 1))"
        using that False by arith
      then show ?thesis by simp
    qed
    have cond: "(NR ctx + 1 < k \<and> k \<le> NR ctx + 1 + int (length ls))
        = (NR ctx < k \<and> k \<le> NR ctx + int (length (l # ls)))"
      using False by auto
    show ?thesis
      using step rest e idx cond by (simp add: Let_def)
  qed
qed

text \<open>
  Claim C4. For a program whose only rule has the pattern \<^verbatim>\<open>NR==k\<close> and an input of
  \<open>n\<close> lines: if \<open>1 \<le> k \<le> n\<close> the action runs exactly once, in the context of the
  \<open>k\<close>-th line, where \<open>NR = k\<close>; if \<open>k < 1\<close> or \<open>k > n\<close> it never runs. The counter starts
  at 0 and is incremented before the pattern is evaluated.
\<close>

theorem line_pattern_runs_once:
  assumes "parseProgram lib (Program opts) =
      Inr \<lparr>Begin = None, Rules = [\<lparr>Pattern = Some (LinePattern k), Action = a\<rparr>], End = None\<rparr>"
  shows "processInput lib reader opts =
    ((if 1 \<le> k \<and> k \<le> int (length (tokens reader))
      then fst (snd (Action_Execute lib a
             (recordAt (FieldSeparator opts) k (tokens reader ! nat (k - 1)))))
      else []),
     scanErr reader)"
proof -
  let ?prog = "\<lparr>Begin = None, Rules = [\<lparr>Pattern = Some (LinePattern k), Action = a\<rparr>], End = None\<rparr>"
  let ?ctx = "\<lparr>NR = 0, NF = 0, Fields = [], Line = [], FS = FieldSeparator opts\<rparr>"
  have "Rules ?prog = [\<lparr>Pattern = Some (LinePattern k), Action = a\<rparr>]" by simp
  from processLines_line_rule [OF this, of lib ?ctx "tokens reader"]
  obtain program' ctx' where
    run: "processLines lib ?prog ?ctx (tokens reader) =
      (program', ctx',
       (if 0 < k \<and> k \<le> int (length (tokens reader))
        then fst (snd (Action_Execute lib a (recordAt (FieldSeparator opts) k (tokens reader ! nat (k - 1)))))
        else []),
       None)"
    and e: "End program' = None"
    by auto
  have "(0 < k) = (1 \<le> k)" by auto
  then show ?thesis
    using assms run e
    by (simp add: processInput_def execOptional_def split: option.split)
qed


lemma parse_line_rule:
  assumes "TrimSpace p = p" and "\<not> HasPrefix p ''BEGIN''" and "Index p ''END'' = None"
    and "p \<noteq> []" and "\<not> HasPrefix p ''/''" and "HasPrefix p ''NR==''"
    and "SplitN2 p '' '' = [p]" and "Atoi (TrimPrefix p ''NR=='') = Some k"
  shows "parseProgram lib p =
    Inr \<lparr>Begin = None,
         Rules = [\<lparr>Pattern = Some (LinePattern k),
                   Action = \<lparr>Statements = [PrintStatement []], Variables = None\<rparr>\<rparr>],
         End = None\<rparr>"
  using assms
  by (simp add: parseProgram_def parseBegin_def parseEnd_def parseRule_def parsePattern_def)

lemma parse_NR2: "parseProgram lib ''NR==2'' =
    Inr \<lparr>Begin = None,
         Rules = [\<lparr>Pattern = Some (LinePattern 2),
                   Action = \<lparr>Statements = [PrintStatement []], Variables = None\<rparr>\<rparr>],
         End = None\<rparr>"
  by (rule parse_line_rule; code_simp)

lemma parse_NR0: "parseProgram lib ''NR==0'' =
    Inr \<lparr>Begin = None,
         Rules = [\<lparr>Pattern = Some (LinePattern 0),
                   Action = \<lparr>Statements = [PrintStatement []], Variables = None\<rparr>\<rparr>],
         End = None\<rparr>"
  by (rule parse_line_rule; code_simp)

lemma parse_NR5: "parseProgram lib ''NR==5'' =
    Inr \<lparr>Begin = None,
         Rules = [\<lparr>Pattern = Some (LinePattern 5),
                   Action = \<lparr>Statements = [PrintStatement []], Variables = None\<rparr>\<rparr>],
         End = None\<rparr>"
  by (rule parse_line_rule; code_simp)

theorem line_pattern_runs_once_witness:
  "processInput smallLib \<lparr>tokens = [''3'', ''4 x'', ''abc''], scanErr = None\<rparr>
      \<lparr>FieldSeparator = '' '', Program = ''NR==2''\<rparr> = ([''4 x''], None)
   \<and> processInput smallLib \<lparr>tokens = [''3'', ''4 x'', ''abc''], scanErr = None\<rparr>
      \<lparr>FieldSeparator = '' '', Program = ''NR==0''\<rparr> = ([], None)
   \<and> processInput smallLib \<lparr>tokens = [''3'', ''4 x'', ''abc''], scanErr = None\<rparr>
      \<lparr>FieldSeparator = '' '', Program = ''NR==5''\<rparr> = ([], None)"
proof -
  let ?rd = "\<lparr>tokens = [''3'', ''4 x'', ''abc''], scanErr = None\<rparr>"
  have p2: "parseProgram smallLib (Program \<lparr>FieldSeparator = '' '', Program = ''NR==2''\<rparr>) =
    Inr \<lparr>Begin = None,
         Rules = [\<lparr>Pattern = Some (LinePattern 2),
                   Action = \<lparr>Statements = [PrintStatement []], Variables = None\<rparr>\<rparr>],
         End = None\<rparr>"
    by (simp add: parse_NR2)
  have p0: "parseProgram smallLib (Program \<lparr>FieldSeparator = '' '', Program = ''NR==0''\<rparr>) =
    Inr \<lparr>Begin = None,
         Rules = [\<lparr>Pattern = Some (LinePattern 0),
                   Action = \<lparr>Statements = [PrintStatement []], Variables = None\<rparr>\<rparr>],
         End = None\<rparr>"
    by (simp add: parse_NR0)
  have p5: "parseProgram smallLib (Program \<lparr>FieldSeparator = '' '', Program = ''NR==5''\<rparr>) =
    Inr \<lparr>Begin = None,
         Rules = [\<lparr>Pattern = Some (LinePattern 5),
                   Action = \<lparr>Statements = [PrintStatement []], Variables = None\<rparr>\<rparr>],
         End = None\<rparr>"
    by (simp add: parse_NR5)
  show ?thesis
    using line_pattern_runs_once [OF p2, of ?rd] line_pattern_runs_once [OF p0, of ?rd]
      line_pattern_runs_once [OF p5, of ?rd]
    by (simp add: Action_Execute_def recordAt_def)
qed

section \<open>Regular-expression patterns\<close>

lemma HasPrefix_iff: "HasPrefix s p = (\<exists>v. s = p @ v)"
proof
  assume "HasPrefix s p"
  then have "s = p @ drop (length p) s"
    by (metis HasPrefix_def append_take_drop_id)
  then show "\<exists>v. s = p @ v" ..
next
  assume "\<exists>v. s = p @ v"
  then show "HasPrefix s p" by (auto simp: HasPrefix_def)
qed

lemma Index_None_iff: "(Index s sub = None) = (\<not> (\<exists>u v. s = u @ sub @ v))"
proof (induction s)
  case Nil
  then show ?case by simp
next
  case (Cons c cs)
  have "(\<exists>u v. c # cs = u @ sub @ v) = (HasPrefix (c # cs) sub \<or> (\<exists>u v. cs = u @ sub @ v))"
  proof
    assume "\<exists>u v. c # cs = u @ sub @ v"
    then obtain u v where uv: "c # cs = u @ sub @ v" by blast
    show "HasPrefix (c # cs) sub \<or> (\<exists>u v. cs = u @ sub @ v)"
    proof (cases u)
      case Nil
      with uv show ?thesis by (auto simp: HasPrefix_iff)
    next
      case (Cons d u')
      with uv have "cs = u' @ sub @ v" by simp
      then show ?thesis by blast
    qed
  next
    assume "HasPrefix (c # cs) sub \<or> (\<exists>u v. cs = u @ sub @ v)"
    then show "\<exists>u v. c # cs = u @ sub @ v"
    proof
      assume "HasPrefix (c # cs) sub"
      then obtain v where "c # cs = [] @ sub @ v" by (auto simp: HasPrefix_iff)
      then show ?thesis by blast
    next
      assume "\<exists>u v. cs = u @ sub @ v"
      then obtain u v where "cs = u @ sub @ v" by blast
      then have "c # cs = (c # u) @ sub @ v" by simp
      then show ?thesis by blast
    qed
  qed
  with Cons.IH show ?case by simp
qed

lemma Contains_iff: "Contains s sub = (\<exists>u v. s = u @ sub @ v)"
  by (simp add: Contains_def Index_None_iff)

lemma printed_regex: "printed lib (RegexPattern re) ctx ls = filter (regexp_MatchString lib re) ls"
  by (induction ls arbitrary: ctx) (simp_all add: Line_readRecord)

lemma parse_abc:
  "regexp_Compile lib ''abc'' = Some re \<Longrightarrow>
   parseProgram lib ''/abc/'' =
    Inr \<lparr>Begin = None,
         Rules = [\<lparr>Pattern = Some (RegexPattern re),
                   Action = \<lparr>Statements = [PrintStatement []], Variables = None\<rparr>\<rparr>],
         End = None\<rparr>"
proof -
  assume c: "regexp_Compile lib ''abc'' = Some re"
  have f1: "TrimSpace ''/abc/'' = ''/abc/''" by code_simp
  have f2: "Index ''/abc/'' ''END'' = None" by code_simp
  have f3: "Index ''abc/'' ''/'' = Some 3" by code_simp
  have f4: "TrimSpace [] = []" by code_simp
  show ?thesis
    by (simp add: parseProgram_def parseBegin_def parseEnd_def parseRule_def parsePattern_def
        HasPrefix_def f1 f2 f3 f4 c)
qed

text \<open>
  Claim C7. A rule text that starts with \<^verbatim>\<open>/\<close> fails to parse when no second \<^verbatim>\<open>/\<close>
  follows, or when the text between the two does not compile; otherwise its pattern is the
  compiled expression, and its action is a bare print when nothing follows the pattern.
  The pattern matches by \<^verbatim>\<open>MatchString\<close> on the whole current line. So, when
  \<^verbatim>\<open>abc\<close> compiles to an expression that matches exactly the lines containing
  \<^verbatim>\<open>abc\<close>, the program \<^verbatim>\<open>/abc/\<close> writes exactly those input lines, in order.
\<close>

theorem regex_rule:
  "(HasPrefix (TrimSpace s) ''/'' \<and> Index (drop 1 (TrimSpace s)) ''/'' = None \<longrightarrow>
      parseRule lib s = Inl MissingClosingSlash)
   \<and> (HasPrefix (TrimSpace s) ''/'' \<and> Index (drop 1 (TrimSpace s)) ''/'' = Some i
        \<and> regexp_Compile lib (take i (drop 1 (TrimSpace s))) = None \<longrightarrow>
      parseRule lib s = Inl InvalidRegex)
   \<and> (HasPrefix (TrimSpace s) ''/'' \<and> Index (drop 1 (TrimSpace s)) ''/'' = Some i
        \<and> regexp_Compile lib (take i (drop 1 (TrimSpace s))) = Some re
        \<and> parseRule lib s = Inr r \<longrightarrow>
      Pattern r = Some (RegexPattern re))
   \<and> (HasPrefix (TrimSpace s) ''/'' \<and> Index (drop 1 (TrimSpace s)) ''/'' = Some i
        \<and> regexp_Compile lib (take i (drop 1 (TrimSpace s))) = Some re
        \<and> TrimSpace (drop (i + 2) (TrimSpace s)) = [] \<longrightarrow>
      parseRule lib s =
        Inr \<lparr>Pattern = Some (RegexPattern re),
             Action = \<lparr>Statements = [PrintStatement []], Variables = None\<rparr>\<rparr>)
   \<and> Match lib (RegexPattern re) ctx = regexp_MatchString lib re (Line ctx)
   \<and> (regexp_Compile lib ''abc'' = Some re
        \<and> (\<forall>l. regexp_MatchString lib re l = (\<exists>u v. l = u @ ''abc'' @ v)) \<longrightarrow>
      processInput lib reader \<lparr>FieldSeparator = sep, Program = ''/abc/''\<rparr> =
        (filter (\<lambda>l. \<exists>u v. l = u @ ''abc'' @ v) (tokens reader), scanErr reader))"
proof -
  have run: "processInput lib reader \<lparr>FieldSeparator = sep, Program = ''/abc/''\<rparr> =
        (filter (\<lambda>l. \<exists>u v. l = u @ ''abc'' @ v) (tokens reader), scanErr reader)"
    if c: "regexp_Compile lib ''abc'' = Some re"
      and m: "\<forall>l. regexp_MatchString lib re l = (\<exists>u v. l = u @ ''abc'' @ v)"
  proof -
    have "parseProgram lib (Program \<lparr>FieldSeparator = sep, Program = ''/abc/''\<rparr>) =
      Inr \<lparr>Begin = None,
         Rules = [\<lparr>Pattern = Some (RegexPattern re),
                   Action = \<lparr>Statements = [PrintStatement []], Variables = None\<rparr>\<rparr>],
         End = None\<rparr>"
      using parse_abc [OF c] by simp
    from processInput_print_rule [OF this, of reader]
    have out: "processInput lib reader \<lparr>FieldSeparator = sep, Program = ''/abc/''\<rparr> =
        (filter (regexp_MatchString lib re) (tokens reader), scanErr reader)"
      by (simp add: printed_regex)
    have "regexp_MatchString lib re = (\<lambda>l. \<exists>u v. l = u @ ''abc'' @ v)"
      using m by (intro ext) simp
    with out show ?thesis by simp
  qed
  have rest: "parseRule lib s = Inr r \<Longrightarrow> HasPrefix (TrimSpace s) ''/'' \<Longrightarrow>
      Index (drop 1 (TrimSpace s)) ''/'' = Some i \<Longrightarrow>
      regexp_Compile lib (take i (drop 1 (TrimSpace s))) = Some re \<Longrightarrow>
      Pattern r = Some (RegexPattern re)"
    by (auto simp: parseRule_def parsePattern_def split: if_splits sum.splits)
  show ?thesis
    using run rest by (auto simp: parseRule_def parsePattern_def)
qed


theorem regex_rule_witness:
  "parseRule smallLib ''/abc'' = Inl MissingClosingSlash
   \<and> parseRule smallLib ''/a(c/'' = Inl InvalidRegex
   \<and> parseRule smallLib ''/abc/'' =
        Inr \<lparr>Pattern = Some (RegexPattern ''abc''),
             Action = \<lparr>Statements = [PrintStatement []], Variables = None\<rparr>\<rparr>
   \<and> processInput smallLib \<lparr>tokens = [''xabcx'', ''ab c'', ''abc''], scanErr = None\<rparr>
        \<lparr>FieldSeparator = '' '', Program = ''/abc/''\<rparr> = ([''xabcx'', ''abc''], None)"
proof -
  have t1: "TrimSpace ''/abc'' = ''/abc''" by code_simp
  have t2: "TrimSpace ''/a(c/'' = ''/a(c/''" by code_simp
  have t3: "TrimSpace ''/abc/'' = ''/abc/''" by code_simp
  have t4: "TrimSpace [] = []" by code_simp
  have i1: "Index ''abc'' ''/'' = None" by code_simp
  have i2: "Index ''a(c/'' ''/'' = Some 3" by code_simp
  have i3: "Index ''abc/'' ''/'' = Some 3" by code_simp
  have c2: "regexp_Compile smallLib ''a(c'' = None" by code_simp
  have c3: "regexp_Compile smallLib ''abc'' = Some ''abc''" by code_simp
  have m: "\<forall>l. regexp_MatchString smallLib ''abc'' l = (\<exists>u v. l = u @ ''abc'' @ v)"
    by (simp add: smallLib_def Contains_iff)
  have k1: "Contains ''xabcx'' ''abc''" by code_simp
  have k2: "\<not> Contains ''ab c'' ''abc''" by code_simp
  have k3: "Contains ''abc'' ''abc''" by code_simp
  have a: "parseRule smallLib ''/abc'' = Inl MissingClosingSlash"
    using regex_rule [where lib = smallLib and s = "''/abc''"]
    by (simp add: t1 i1 HasPrefix_def)
  have b: "parseRule smallLib ''/a(c/'' = Inl InvalidRegex"
    using regex_rule [where lib = smallLib and s = "''/a(c/''" and i = 3] c2
    by (simp add: t2 i2 HasPrefix_def)
  have c: "parseRule smallLib ''/abc/'' =
        Inr \<lparr>Pattern = Some (RegexPattern ''abc''),
             Action = \<lparr>Statements = [PrintStatement []], Variables = None\<rparr>\<rparr>"
    using regex_rule [where lib = smallLib and s = "''/abc/''" and i = 3 and re = "''abc''"] c3
    by (simp add: t3 t4 i3 HasPrefix_def)
  have d: "processInput smallLib \<lparr>tokens = [''xabcx'', ''ab c'', ''abc''], scanErr = None\<rparr>
        \<lparr>FieldSeparator = '' '', Program = ''/abc/''\<rparr> =
     (filter (\<lambda>l. \<exists>u v. l = u @ ''abc'' @ v) [''xabcx'', ''ab c'', ''abc''], None)"
    using regex_rule [where lib = smallLib and re = "''abc''" and sep = "'' ''"
        and reader = "\<lparr>tokens = [''xabcx'', ''ab c'', ''abc''], scanErr = None\<rparr>"] c3 m
    by simp
  have "filter (\<lambda>l. \<exists>u v. l = u @ ''abc'' @ v) [''xabcx'', ''ab c'', ''abc''] = [''xabcx'', ''abc'']"
    using k1 k2 k3 by (simp add: Contains_iff)
  with a b c d show ?thesis by simp
qed


section \<open>Field splitting\<close>




























end
